theory Spec2Isabelle
  imports Complex_Main "HOL-Library.Word" "HOL-Library.AList"
begin

unbundle bit_operations_syntax

section \<open>Data model\<close>

text \<open>
  A JavaScript string is a sequence of UTF-16 code units. Text typed by the user is
  kept in that form; identifiers and fixed messages of the scripts are HOL strings.
\<close>

type_synonym jsstring = "16 word list"

subsection \<open>The page state shared by the three scripts\<close>

text \<open>The icon written into the toggle button: the full moon for the dark theme,
  the new moon for the light one.\<close>

datatype icon = FullMoon | NewMoon

record toggle_button =
  textContent :: icon
  ariaLabel :: string

text \<open>The public key \<open>{e, n}\<close>, the private key \<open>{d, n}\<close> and the object returned
  by key generation, with the fields the controller reads.\<close>

record public_key =
  pub_e :: int
  pub_n :: int

record private_key =
  priv_d :: int
  priv_n :: int

record key_pair =
  publicKey :: public_key
  privateKey :: private_key
  key_p :: int
  key_q :: int
  key_phi :: int

text \<open>
  The mutable state the scripts keep between two events: the browser's
  \<open>localStorage\<close>, the \<open>data-theme\<close> attribute of the document element, the toggle
  button (absent on a page without one), the globals of the two controllers, and the
  text of the ciphertext field of the RSA tool, which the script itself writes and
  reads. The other form fields are written by the user only; their values are
  arguments of the handlers. \<open>currentHashes\<close> holds the own properties of the results
  object in the order they were created; the \<open>time\<close> stored beside each hash is a
  wall-clock measurement and is left out.
\<close>

record page =
  localStorage :: "string \<rightharpoonup> string"
  dataTheme :: "string option"
  toggleBtn :: "toggle_button option"
  currentHashes :: "(string \<times> string) list"
  lastInput :: jsstring
  currentKeys :: "key_pair option"
  lastCiphertext :: "int option"
  ciphertextField :: jsstring

section \<open>dark-mode-toggle.js\<close>

text \<open>\<open>getThemePreference\<close>: the saved preference when there is a non-empty one,
  otherwise the system preference (the argument is the result of the media query).\<close>

definition getThemePreference :: "bool \<Rightarrow> page \<Rightarrow> string" where
  "getThemePreference prefersDark s =
     (case localStorage s ''theme'' of
        Some saved \<Rightarrow> if saved \<noteq> [] then saved
                      else if prefersDark then ''dark'' else ''light''
      | None \<Rightarrow> if prefersDark then ''dark'' else ''light'')"

definition applyTheme :: "string \<Rightarrow> page \<Rightarrow> page" where
  "applyTheme theme s =
     s\<lparr> dataTheme := Some theme,
        localStorage := (localStorage s)(''theme'' \<mapsto> theme),
        toggleBtn :=
          (case toggleBtn s of
             None \<Rightarrow> None
           | Some b \<Rightarrow> Some (b\<lparr> textContent := (if theme = ''dark'' then FullMoon else NewMoon),
                                 ariaLabel := (if theme = ''dark'' then ''Switch to light mode''
                                               else ''Switch to dark mode'') \<rparr>)) \<rparr>"

text \<open>\<open>getAttribute('data-theme') || 'light'\<close>: an absent attribute and the empty
  string both count as light.\<close>

definition currentTheme :: "page \<Rightarrow> string" where
  "currentTheme s =
     (case dataTheme s of None \<Rightarrow> ''light'' | Some t \<Rightarrow> if t = [] then ''light'' else t)"

definition toggleTheme :: "page \<Rightarrow> page" where
  "toggleTheme s =
     (let current = currentTheme s;
          next = (if current = ''dark'' then ''light'' else ''dark'')
      in applyTheme next s)"

definition initTheme :: "bool \<Rightarrow> page \<Rightarrow> page" where
  "initTheme prefersDark s = applyTheme (getThemePreference prefersDark s) s"

text \<open>The listener for a change of the system theme: it applies the new system theme
  only when no non-empty preference is saved.\<close>

definition onSystemThemeChange :: "bool \<Rightarrow> page \<Rightarrow> page" where
  "onSystemThemeChange matches s =
     (case localStorage s ''theme'' of
        None \<Rightarrow> applyTheme (if matches then ''dark'' else ''light'') s
      | Some saved \<Rightarrow>
          if saved = [] then applyTheme (if matches then ''dark'' else ''light'') s else s)"

text \<open>A freshly loaded page: nothing stored, no theme attribute, no keys.\<close>

definition fresh_page :: page where
  "fresh_page =
     \<lparr> localStorage = Map.empty, dataTheme = None, toggleBtn = None,
       currentHashes = [], lastInput = [], currentKeys = None,
       lastCiphertext = None, ciphertextField = [] \<rparr>"

section \<open>Calls and user-interface effects\<close>

text \<open>
  The controllers act on the world through collaborators that are not part of the
  controller files (\<open>UIUtils\<close>, \<open>DisplayComponents\<close>, \<open>HashCore\<close>, \<open>HashUtils\<close>,
  \<open>Config\<close>, \<open>MathUtils\<close>, \<open>RSACore\<close>). A handler is modelled as a function from the
  values it reads from the form and the page state to the list of effects it causes,
  in order, and the new page state. An error thrown by a collaborator is a value.
\<close>

datatype js_error = Error string | TypeError

text \<open>A number as \<open>parseFloat\<close> returns it: a finite value or one of the three
  special values.\<close>

datatype js_number = Num real | PosInfinity | NegInfinity | NaN

record algorithm_info =
  info_name :: string
  outputBits :: nat

text \<open>The stages \<open>RSACore.generateKeyPair\<close> reports to its callback, namely the strings
  \<open>Generating prime p\<close>, \<open>Generating prime q\<close>, \<open>Computing modulus n\<close>,
  \<open>Computing phi(n)\<close> (written with the Greek letter in the script),
  \<open>Computing private exponent d\<close> and \<open>Complete\<close>; any other string is \<open>OtherStage\<close>.\<close>

datatype stage =
    GeneratingPrimeP | GeneratingPrimeQ | ComputingModulusN | ComputingPhiN
  | ComputingPrivateExponentD | Complete | OtherStage string

record attempt_info =
  attempt :: nat
  isPrime :: bool

text \<open>The message \<open>updateProgress\<close> writes into the progress element: a step
  \<open>k/4\<close> with its text and, for the two prime stages, the attempt line; the completion
  message; or the empty string of an unknown stage.\<close>

datatype progress_message =
    StepMessage nat string "attempt_info option"
  | CompleteMessage
  | EmptyMessage

datatype quality = Excellent | Good | Poor
datatype color = Green | Blue | Red

text \<open>The calls into the computational collaborators.\<close>

datatype core_call =
    ComputeHash jsstring string
  | ComputeAvalanche string string
  | AttemptsFor50PercentCollision nat
  | BirthdayAttackProbability nat real
  | GenerateKeyPair nat
  | StringToBigInt jsstring
  | BitLength int
  | ParseBigInt jsstring
  | Encrypt int public_key
  | Decrypt int private_key
  | BigIntToString int

text \<open>The text handed to \<open>UIUtils.showError\<close>: a fixed text, or a prefix followed by
  the message of a caught error.\<close>

datatype error_text = Text string | Failed string js_error

datatype event =
    ShowError error_text
  | ClearResults "string list"
  | ShowLoading string string
  | HideLoading string
  | SetButtonLoading string string
  | ResetButton string string
  | EnableButton string
  | Call core_call
  | Settled core_call
  | Progress progress_message
  | DisplayHashResults jsstring "(string \<times> string) list"
  | DisplayAvalancheResults jsstring jsstring string string js_number quality color
  | DisplayBirthdayResults algorithm_info
  | DisplayKeys key_pair
  | DisplayEncryptionResults jsstring int int public_key
  | DisplayDecryptionResults int int jsstring private_key

text \<open>
  The collaborators, as parameters of the handlers. \<open>computeHash\<close> is
  \<open>HashCore.computeHash\<close>; \<open>computeAvalanche\<close> gives \<open>parseFloat\<close> of the percentage of
  \<open>HashUtils.computeAvalanche\<close>; \<open>getAlgorithmInfo\<close> is the table of \<open>Config\<close>;
  \<open>generateKeyPair\<close> returns, with its result, the arguments of the calls it made to the
  progress callback, in order; \<open>parseBigInt\<close> is the \<open>BigInt\<close> constructor on a string.
  The encoding of a message is a natural number.
\<close>

record collaborators =
  computeHash :: "jsstring \<Rightarrow> string \<Rightarrow> js_error + string"
  computeAvalanche :: "string \<Rightarrow> string \<Rightarrow> js_number"
  getAlgorithmInfo :: "string \<Rightarrow> algorithm_info option"
  generateKeyPair :: "nat \<Rightarrow> (stage \<times> attempt_info option) list \<times> (js_error + key_pair)"
  stringToBigInt :: "jsstring \<Rightarrow> js_error + nat"
  bigIntToString :: "int \<Rightarrow> js_error + jsstring"
  bitLength :: "int \<Rightarrow> nat"
  parseBigInt :: "jsstring \<Rightarrow> js_error + int"
  encrypt :: "int \<Rightarrow> public_key \<Rightarrow> js_error + int"
  decrypt :: "int \<Rightarrow> private_key \<Rightarrow> js_error + int"

section \<open>The hash visualizer controller\<close>

text \<open>\<open>getSelectedAlgorithms\<close>: the values of the checked boxes, in document order.\<close>

definition getSelectedAlgorithms :: "(string \<times> bool) list \<Rightarrow> string list" where
  "getSelectedAlgorithms checkboxes = map fst (filter snd checkboxes)"

text \<open>
  The assignment \<open>results[algo] = ...\<close> on a plain object: it replaces the value of
  a key already present and creates a new property otherwise, except for the key
  \<open>__proto__\<close>, where it sets the prototype of the object and creates no property.
\<close>

definition set_property :: "string \<Rightarrow> 'v \<Rightarrow> (string \<times> 'v) list \<Rightarrow> (string \<times> 'v) list" where
  "set_property key v obj = (if key = ''__proto__'' then obj else AList.update key v obj)"

text \<open>
  \<open>Object.entries\<close>, over which \<open>displayHashResults\<close> iterates: the keys that are
  array indices (the decimal numerals, without leading zero, of the numbers up to
  \<open>2^32 - 2\<close>) come first, in ascending order, then the other keys in the order of
  their creation.
\<close>

definition array_index :: "string \<Rightarrow> int option" where
  "array_index key =
     (let n = foldl (\<lambda>acc c. 10 * acc + (of_char c - 48)) (0 :: int) key in
      if key \<noteq> [] \<and> list_all (\<lambda>c. 48 \<le> (of_char c :: int) \<and> (of_char c :: int) \<le> 57) key
         \<and> (key = ''0'' \<or> hd key \<noteq> CHR ''0'') \<and> n \<le> 4294967294
      then Some n else None)"

definition js_entries :: "(string \<times> 'v) list \<Rightarrow> (string \<times> 'v) list" where
  "js_entries obj =
     sort_key (\<lambda>(key, v). case array_index key of Some i \<Rightarrow> i | None \<Rightarrow> 0)
       (filter (\<lambda>(key, v). array_index key \<noteq> None) obj)
     @ filter (\<lambda>(key, v). array_index key = None) obj"

text \<open>The loop of \<open>handleComputeHash\<close>: one awaited call for each algorithm, each
  followed by the assignment to \<open>results\<close>. The first call that throws ends the
  loop.\<close>

fun computeAll ::
  "(jsstring \<Rightarrow> string \<Rightarrow> js_error + string) \<Rightarrow> jsstring \<Rightarrow> string list \<Rightarrow>
   (string \<times> string) list \<Rightarrow> event list \<times> (js_error + (string \<times> string) list)" where
  "computeAll h input [] results = ([], Inr results)"
| "computeAll h input (algo # rest) results =
     (case h input algo of
        Inl err \<Rightarrow> ([Call (ComputeHash input algo), Settled (ComputeHash input algo)], Inl err)
      | Inr hash \<Rightarrow>
          (let (evs, r) = computeAll h input rest (set_property algo hash results)
           in (Call (ComputeHash input algo) # Settled (ComputeHash input algo) # evs, r)))"

definition handleComputeHash ::
  "('z collaborators_scheme) \<Rightarrow> jsstring \<Rightarrow> (string \<times> bool) list \<Rightarrow> page \<Rightarrow> event list \<times> page" where
  "handleComputeHash env input checkboxes s =
     (let selectedAlgos = getSelectedAlgorithms checkboxes in
      if input = [] then ([ShowError (Text ''Please enter text to hash'')], s)
      else if length selectedAlgos = 0 then
        ([ShowError (Text ''Please select at least one hash algorithm'')], s)
      else
        (case computeAll (computeHash env) input selectedAlgos [] of
           (evs, Inr results) \<Rightarrow>
             ([ClearResults [''hash-results''],
               ShowLoading ''hash-results'' ''Computing hashes...''] @ evs @
              [DisplayHashResults input (js_entries results), HideLoading ''hash-results''],
              s\<lparr> currentHashes := results, lastInput := input \<rparr>)
         | (evs, Inl err) \<Rightarrow>
             ([ClearResults [''hash-results''],
               ShowLoading ''hash-results'' ''Computing hashes...''] @ evs @
              [ShowError (Failed ''Hash computation failed: '' err),
               HideLoading ''hash-results''],
              s)))"

text \<open>The modified input of the avalanche test: the last code unit is replaced;
  \<open>~\<close> (126) becomes 124, every other code unit has its lowest bit flipped.\<close>

definition modifiedInput :: "jsstring \<Rightarrow> jsstring" where
  "modifiedInput baseInput =
     butlast baseInput @ [if last baseInput = 126 then 124 else last baseInput XOR 1]"

text \<open>The comparisons \<open>percentage >= c\<close> and \<open>percentage <= c\<close> of JavaScript numbers
  with a finite constant: false on \<open>NaN\<close>.\<close>

fun js_ge :: "js_number \<Rightarrow> real \<Rightarrow> bool" where
  "js_ge (Num x) c = (x \<ge> c)"
| "js_ge PosInfinity c = True"
| "js_ge NegInfinity c = False"
| "js_ge NaN c = False"

fun js_le :: "js_number \<Rightarrow> real \<Rightarrow> bool" where
  "js_le (Num x) c = (x \<le> c)"
| "js_le PosInfinity c = False"
| "js_le NegInfinity c = True"
| "js_le NaN c = False"

text \<open>The quality and colour chosen in \<open>displayAvalancheResults\<close>.\<close>

definition avalancheQuality :: "js_number \<Rightarrow> quality \<times> color" where
  "avalancheQuality percentage =
     (if js_ge percentage 45 \<and> js_le percentage 55 then (Excellent, Green)
      else if js_ge percentage 40 \<and> js_le percentage 60 then (Good, Blue)
      else (Poor, Red))"

text \<open>\<open>displayAvalancheResults\<close> reads \<open>info.name\<close>: with no entry for the algorithm
  this throws a \<open>TypeError\<close>, which the handler catches.\<close>

definition displayAvalancheResults ::
  "('z collaborators_scheme) \<Rightarrow> jsstring \<Rightarrow> jsstring \<Rightarrow> string \<Rightarrow> string \<Rightarrow> js_number \<Rightarrow> string \<Rightarrow>
   js_error + event" where
  "displayAvalancheResults env original modified hash1 hash2 percentage algorithm =
     (case getAlgorithmInfo env algorithm of
        None \<Rightarrow> Inl TypeError
      | Some info \<Rightarrow>
          (let (q, c) = avalancheQuality percentage
           in Inr (DisplayAvalancheResults original modified hash1 hash2 percentage q c)))"

definition handleAvalanche ::
  "('z collaborators_scheme) \<Rightarrow> jsstring \<Rightarrow> string \<Rightarrow> page \<Rightarrow> event list \<times> page" where
  "handleAvalanche env baseInput algorithm s =
     (if baseInput = [] then ([ShowError (Text ''Please enter base text for avalanche test'')], s)
      else
        (let start = [ClearResults [''avalanche-results''],
                      ShowLoading ''avalanche-results'' ''Computing avalanche effect...''];
             failed = (\<lambda>err. [ShowError (Failed ''Avalanche test failed: '' err),
                              HideLoading ''avalanche-results''])
         in case computeHash env baseInput algorithm of
              Inl err \<Rightarrow>
                (start @ [Call (ComputeHash baseInput algorithm),
                          Settled (ComputeHash baseInput algorithm)] @ failed err, s)
            | Inr originalHash \<Rightarrow>
                (let modified = modifiedInput baseInput;
                     first = [Call (ComputeHash baseInput algorithm),
                              Settled (ComputeHash baseInput algorithm),
                              Call (ComputeHash modified algorithm),
                              Settled (ComputeHash modified algorithm)]
                 in case computeHash env modified algorithm of
                      Inl err \<Rightarrow> (start @ first @ failed err, s)
                    | Inr modifiedHash \<Rightarrow>
                        (let avalanche = computeAvalanche env originalHash modifiedHash;
                             calls = first @ [Call (ComputeAvalanche originalHash modifiedHash)]
                         in case displayAvalancheResults env baseInput modified originalHash
                                   modifiedHash avalanche algorithm of
                              Inl err \<Rightarrow> (start @ calls @ failed err, s)
                            | Inr shown \<Rightarrow>
                                (start @ calls @ [shown, HideLoading ''avalanche-results''],
                                 s)))))"

text \<open>\<open>handleBirthdayCalculator\<close>. The probabilities are floating-point values computed
  by \<open>HashUtils\<close>; the model records the calls (the attempt counts are
  \<open>2^(hashBits / d)\<close> for the four divisors) and the display.\<close>

definition handleBirthdayCalculator ::
  "('z collaborators_scheme) \<Rightarrow> string \<Rightarrow> page \<Rightarrow> event list \<times> page" where
  "handleBirthdayCalculator env algorithm s =
     (case getAlgorithmInfo env algorithm of
        None \<Rightarrow> ([ShowError (Text ''Invalid algorithm selected'')], s)
      | Some info \<Rightarrow>
          (let hashBits = outputBits info
           in (Call (AttemptsFor50PercentCollision hashBits) #
               map (\<lambda>d. Call (BirthdayAttackProbability hashBits d)) [4, 3, 2, 1.5] @
               [DisplayBirthdayResults info], s)))"

section \<open>The RSA tool controller\<close>

text \<open>\<open>String.prototype.trim\<close> removes the white space and line terminators of
  ECMAScript from both ends.\<close>

definition is_js_whitespace :: "16 word \<Rightarrow> bool" where
  "is_js_whitespace c =
     (c \<in> {9, 10, 11, 12, 13, 32, 160, 5760, 8232, 8233, 8239, 8287, 12288, 65279}
      \<or> (8192 \<le> c \<and> c \<le> 8202))"

definition trim :: "jsstring \<Rightarrow> jsstring" where
  "trim str = rev (dropWhile is_js_whitespace (rev (dropWhile is_js_whitespace str)))"

text \<open>A number inside a template literal is written in decimal.\<close>

fun decimal :: "nat \<Rightarrow> string" where
  "decimal n =
     (if n < 10 then [''0123456789'' ! n]
      else decimal (n div 10) @ [''0123456789'' ! (n mod 10)])"

declare decimal.simps [simp del]

definition number_string :: "int \<Rightarrow> string" where
  "number_string i = (if i < 0 then ''-'' @ decimal (nat (- i)) else decimal (nat i))"

text \<open>\<open>updateProgress\<close>: the \<open>switch\<close> over the stage.\<close>

fun updateProgress :: "stage \<Rightarrow> attempt_info option \<Rightarrow> progress_message" where
  "updateProgress GeneratingPrimeP data = StepMessage 1 ''Generating prime p...'' data"
| "updateProgress GeneratingPrimeQ data = StepMessage 2 ''Generating prime q...'' data"
| "updateProgress ComputingModulusN data = StepMessage 3 ''Computing modulus n = p x q...'' None"
| "updateProgress ComputingPhiN data = StepMessage 3 ''Computing Euler's totient phi(n)...'' None"
| "updateProgress ComputingPrivateExponentD data =
     StepMessage 4 ''Computing private exponent d...'' None"
| "updateProgress Complete data = CompleteMessage"
| "updateProgress (OtherStage name) data = EmptyMessage"

definition handleGenerateKeys ::
  "('z collaborators_scheme) \<Rightarrow> nat \<Rightarrow> page \<Rightarrow> event list \<times> page" where
  "handleGenerateKeys env keySize s =
     (let start = [SetButtonLoading ''generate-keys-btn'' ''Generating...'',
                   ClearResults [''key-gen-results'', ''encryption-results'',
                                 ''decryption-results''],
                   ShowLoading ''key-gen-progress'' ''Initializing key generation...'',
                   Call (GenerateKeyPair keySize)];
          finish = [ResetButton ''generate-keys-btn'' ''Generate RSA Keys'',
                    HideLoading ''key-gen-progress'']
      in case generateKeyPair env keySize of
           (reports, Inr keys) \<Rightarrow>
             (start @ map (\<lambda>(stage, data). Progress (updateProgress stage data)) reports @
              [Settled (GenerateKeyPair keySize), DisplayKeys keys, EnableButton ''encrypt-btn'']
              @ finish,
              s\<lparr> currentKeys := Some keys \<rparr>)
         | (reports, Inl err) \<Rightarrow>
             (start @ map (\<lambda>(stage, data). Progress (updateProgress stage data)) reports @
              [Settled (GenerateKeyPair keySize),
               ShowError (Failed ''Key generation failed: '' err)] @ finish,
              s))"

text \<open>\<open>BigInt.prototype.toString\<close>: the decimal numeral, as code units.\<close>

definition toString :: "int \<Rightarrow> jsstring" where
  "toString i = map (\<lambda>c. of_nat (of_char c)) (number_string i)"

text \<open>\<open>handleEncrypt\<close>. After storing the ciphertext, \<open>displayEncryptionResults\<close>
  shows the result and writes the ciphertext, in decimal, into the ciphertext field.\<close>

definition handleEncrypt ::
  "('z collaborators_scheme) \<Rightarrow> jsstring \<Rightarrow> page \<Rightarrow> event list \<times> page" where
  "handleEncrypt env plaintextInput s =
     (case currentKeys s of
        None \<Rightarrow> ([ShowError (Text ''Please generate keys first!'')], s)
      | Some keys \<Rightarrow>
          (let message = trim plaintextInput in
           if message = [] then ([ShowError (Text ''Please enter a message to encrypt'')], s)
           else
             (case stringToBigInt env message of
                Inl err \<Rightarrow>
                  ([Call (StringToBigInt message),
                    ShowError (Failed ''Encryption failed: '' err)], s)
              | Inr messageNat \<Rightarrow>
                  (let messageInt = int messageNat; n = pub_n (publicKey keys) in
                   if messageInt \<ge> n then
                     (let maxBytes = int (bitLength env n div 8) - 1 in
                      ([Call (StringToBigInt message), Call (BitLength n),
                        ShowError (Text (''Message too large! Maximum message length: ~''
                          @ number_string maxBytes @ '' bytes. Your message: ''
                          @ number_string (int (length message)) @ '' bytes.''))], s))
                   else
                     (case encrypt env messageInt (publicKey keys) of
                        Inl err \<Rightarrow>
                          ([Call (StringToBigInt message),
                            Call (Encrypt messageInt (publicKey keys)),
                            ShowError (Failed ''Encryption failed: '' err)], s)
                      | Inr ciphertext \<Rightarrow>
                          ([Call (StringToBigInt message),
                            Call (Encrypt messageInt (publicKey keys)),
                            DisplayEncryptionResults message messageInt ciphertext
                              (publicKey keys),
                            EnableButton ''decrypt-btn''],
                           s\<lparr> lastCiphertext := Some ciphertext,
                              ciphertextField := toString ciphertext \<rparr>))))))"

text \<open>\<open>handleDecrypt\<close>; its second argument is the text of the ciphertext field
  at the time of the call.\<close>

definition handleDecrypt ::
  "('z collaborators_scheme) \<Rightarrow> jsstring \<Rightarrow> page \<Rightarrow> event list \<times> page" where
  "handleDecrypt env ciphertextInput s =
     (case currentKeys s of
        None \<Rightarrow> ([ShowError (Text ''Please generate keys first!'')], s)
      | Some keys \<Rightarrow>
          (let ciphertextStr = trim ciphertextInput in
           if ciphertextStr = [] then
             ([ShowError (Text ''Please enter ciphertext to decrypt'')], s)
           else
             (case parseBigInt env ciphertextStr of
                Inl err \<Rightarrow>
                  ([Call (ParseBigInt ciphertextStr),
                    ShowError (Failed ''Decryption failed: '' err)], s)
              | Inr ciphertext \<Rightarrow>
                  (case decrypt env ciphertext (privateKey keys) of
                     Inl err \<Rightarrow>
                       ([Call (ParseBigInt ciphertextStr),
                         Call (Decrypt ciphertext (privateKey keys)),
                         ShowError (Failed ''Decryption failed: '' err)], s)
                   | Inr plaintextInt \<Rightarrow>
                       (case bigIntToString env plaintextInt of
                          Inl err \<Rightarrow>
                            ([Call (ParseBigInt ciphertextStr),
                              Call (Decrypt ciphertext (privateKey keys)),
                              Call (BigIntToString plaintextInt),
                              ShowError (Failed ''Decryption failed: '' err)], s)
                        | Inr plaintextStr \<Rightarrow>
                            ([Call (ParseBigInt ciphertextStr),
                              Call (Decrypt ciphertext (privateKey keys)),
                              Call (BigIntToString plaintextInt),
                              DisplayDecryptionResults ciphertext plaintextInt plaintextStr
                                (privateKey keys)], s))))))"


section \<open>Modular exponentiation\<close>

text \<open>
  \<open>RSACore\<close> is called by the controller and is not among the source files; in the
  controller it is a parameter. For concrete runs its \<open>encrypt\<close> and \<open>decrypt\<close> are
  taken to be the modular exponentiation the spec names.
\<close>

text \<open>Modelled from the spec: modular exponentiation, by repeated squaring; the
  helper of \<open>RSACore.encrypt\<close> and \<open>RSACore.decrypt\<close> is not among the source files.\<close>

function modPowLoop :: "int \<Rightarrow> int \<Rightarrow> int \<Rightarrow> int \<Rightarrow> int" where
  "modPowLoop result base ex m =
     (if ex \<le> 0 then result
      else modPowLoop (if ex mod 2 = 1 then result * base mod m else result)
             (base * base mod m) (ex div 2) m)"
  by pat_completeness auto
termination
  by (relation "measure (\<lambda>(result, base, ex, m). nat ex)") auto

declare modPowLoop.simps [simp del]

definition modPow :: "int \<Rightarrow> int \<Rightarrow> int \<Rightarrow> int" where
  "modPow base ex m = (if m = 1 then 0 else modPowLoop 1 (base mod m) ex m)"

text \<open>Modelled from the spec: \<open>RSACore.encrypt\<close> and \<open>RSACore.decrypt\<close>, not among
  the source files: modular exponentiation with the exponent and modulus of the key.\<close>

definition textbook_encrypt :: "int \<Rightarrow> public_key \<Rightarrow> js_error + int" where
  "textbook_encrypt m pub = Inr (modPow m (pub_e pub) (pub_n pub))"

definition textbook_decrypt :: "int \<Rightarrow> private_key \<Rightarrow> js_error + int" where
  "textbook_decrypt c priv = Inr (modPow c (priv_d priv) (priv_n priv))"

section \<open>Notions used to state the properties\<close>

text \<open>The bit positions at which two code units differ.\<close>

definition differing_bits :: "16 word \<Rightarrow> 16 word \<Rightarrow> nat list" where
  "differing_bits x y = filter (\<lambda>i. bit x i \<noteq> bit y i) [0..<16]"

text \<open>A finite number between two bounds.\<close>

fun between :: "real \<Rightarrow> js_number \<Rightarrow> real \<Rightarrow> bool" where
  "between lo (Num x) hi = (lo \<le> x \<and> x \<le> hi)"
| "between lo PosInfinity hi = False"
| "between lo NegInfinity hi = False"
| "between lo NaN hi = False"





text \<open>Collaborators for concrete runs: a table of two algorithms, a hash that
  fails on an algorithm outside the table, a key generation that reports six stages
  and returns the key pair of the primes 61 and 53 with public exponent 17, modular
  exponentiation for encryption and decryption, a one-code-unit message encoding, and
  a parser of decimal digits.\<close>

definition sample_keys :: key_pair where
  "sample_keys =
     \<lparr> publicKey = \<lparr>pub_e = 17, pub_n = 3233\<rparr>,
       privateKey = \<lparr>priv_d = 2753, priv_n = 3233\<rparr>,
       key_p = 61, key_q = 53, key_phi = 3120 \<rparr>"

definition sample_parseBigInt :: "jsstring \<Rightarrow> js_error + int" where
  "sample_parseBigInt str =
     (if list_all (\<lambda>c. 48 \<le> c \<and> c \<le> 57) str
      then Inr (foldl (\<lambda>acc c. 10 * acc + (uint c - 48)) 0 str)
      else Inl (Error ''Cannot convert to a BigInt''))"

definition sample_collaborators :: collaborators where
  "sample_collaborators =
     \<lparr> computeHash = (\<lambda>input algo.
         if algo = ''SHA-256'' then Inr ''aa'' else if algo = ''MD5'' then Inr ''bb''
         else Inl (Error ''Unsupported algorithm'')),
       computeAvalanche = (\<lambda>h1 h2. Num 50),
       getAlgorithmInfo = (\<lambda>algo.
         if algo = ''SHA-256'' then Some \<lparr>info_name = ''SHA-256'', outputBits = 256\<rparr>
         else if algo = ''MD5'' then Some \<lparr>info_name = ''MD5'', outputBits = 128\<rparr>
         else None),
       generateKeyPair = (\<lambda>keySize.
         ([(GeneratingPrimeP, Some \<lparr>attempt = 1, isPrime = True\<rparr>),
           (GeneratingPrimeQ, Some \<lparr>attempt = 1, isPrime = True\<rparr>),
           (ComputingModulusN, None), (ComputingPhiN, None),
           (ComputingPrivateExponentD, None), (Complete, None)],
          Inr sample_keys)),
       stringToBigInt = (\<lambda>str. case str of [c] \<Rightarrow> Inr (unat c)
                                 | _ \<Rightarrow> Inl (Error ''Unsupported message'')),
       bigIntToString = (\<lambda>i. Inr [word_of_int i]),
       bitLength = (\<lambda>i. if i < 4096 then 12 else 16),
       parseBigInt = sample_parseBigInt,
       encrypt = textbook_encrypt,
       decrypt = textbook_decrypt \<rparr>"


text \<open>The page after key generation, and after the encryption of the letter A.\<close>

definition keyed_page :: page where
  "keyed_page = fresh_page\<lparr> currentKeys := Some sample_keys \<rparr>"

definition encrypted_page :: page where
  "encrypted_page =
     keyed_page\<lparr> lastCiphertext := Some 2790, ciphertextField := [50, 55, 57, 48] \<rparr>"

section \<open>Properties of the theme toggle\<close>

lemma dataTheme_applyTheme: "dataTheme (applyTheme t s) = Some t"
  by (simp add: applyTheme_def)

lemma dataTheme_toggleTheme:
  "dataTheme (toggleTheme s) = Some (if currentTheme s = ''dark'' then ''light'' else ''dark'')"
  by (simp add: toggleTheme_def Let_def dataTheme_applyTheme)

text \<open>
  Claim C10. A call of \<open>toggleTheme\<close> always leaves \<open>data-theme\<close> at one of the two
  values dark and light: dark becomes light, and light, an absent attribute and any
  other value become dark. Hence from dark or light two successive calls restore the
  initial value of \<open>data-theme\<close>.
\<close>

theorem toggleTheme_involution:
  "dataTheme (toggleTheme s) \<in> {Some ''dark'', Some ''light''}
   \<and> (dataTheme s = Some ''dark'' \<longrightarrow> dataTheme (toggleTheme s) = Some ''light'')
   \<and> (dataTheme s = Some ''light'' \<longrightarrow> dataTheme (toggleTheme s) = Some ''dark'')
   \<and> (dataTheme s = None \<longrightarrow> dataTheme (toggleTheme s) = Some ''dark'')
   \<and> (dataTheme s \<in> {Some ''dark'', Some ''light''} \<longrightarrow>
        dataTheme (toggleTheme (toggleTheme s)) = dataTheme s)"
  by (auto simp: dataTheme_toggleTheme currentTheme_def)

theorem toggleTheme_involution_witness:
  "dataTheme (fresh_page\<lparr>dataTheme := Some ''dark''\<rparr>) \<in> {Some ''dark'', Some ''light''}
   \<and> dataTheme (toggleTheme (fresh_page\<lparr>dataTheme := Some ''dark''\<rparr>)) = Some ''light''
   \<and> dataTheme (toggleTheme (toggleTheme (fresh_page\<lparr>dataTheme := Some ''dark''\<rparr>)))
       = Some ''dark''"
  using toggleTheme_involution [of "fresh_page\<lparr>dataTheme := Some ''dark''\<rparr>"]
  by simp

section \<open>Properties of the avalanche test\<close>

lemma differing_bits_flip_lowest: "differing_bits (x XOR 1) x = [0]"
proof -
  have "(\<lambda>i. bit (x XOR 1) i \<noteq> bit x i) = (\<lambda>i. i = 0)"
    by (auto simp: fun_eq_iff bit_xor_iff bit_1_iff)
  then show ?thesis
    by (simp add: differing_bits_def upt_rec [of 0])
qed

lemma differing_bits_tilde: "differing_bits (124 :: 16 word) 126 = [1]"
  unfolding differing_bits_def by code_simp

lemma flip_lowest_not_DEL: "x \<noteq> (126 :: 16 word) \<Longrightarrow> x XOR 1 \<noteq> 127"
proof
  assume a: "x \<noteq> 126" and b: "x XOR 1 = 127"
  have "(x XOR 1) XOR 1 = x" by (simp add: xor.assoc)
  with b have "x = 127 XOR 1" by simp
  then have "x = 126" by simp
  with a show False by simp
qed

text \<open>
  Claim C8. For a non-empty base input, the modified input of the avalanche test has
  the length of the base input, agrees with it at every position but the last, its
  last code unit differs from the last code unit of the base input in exactly one bit,
  and its last code unit is never 127 (DEL).
\<close>

theorem modifiedInput_one_bit:
  assumes "baseInput \<noteq> []"
  shows "length (modifiedInput baseInput) = length baseInput
    \<and> (\<forall>i < length baseInput - 1. modifiedInput baseInput ! i = baseInput ! i)
    \<and> length (differing_bits (last (modifiedInput baseInput)) (last baseInput)) = 1
    \<and> last (modifiedInput baseInput) \<noteq> 127"
  using assms
  by (auto simp: modifiedInput_def nth_append nth_butlast differing_bits_flip_lowest
      differing_bits_tilde flip_lowest_not_DEL)

theorem modifiedInput_one_bit_witness:
  "[104, 126 :: 16 word] \<noteq> []
   \<and> modifiedInput [104, 126] = [104, 124]
   \<and> length (differing_bits (last (modifiedInput [104, 126])) (last [104, 126 :: 16 word])) = 1
   \<and> last (modifiedInput [104, 126]) \<noteq> 127"
  using modifiedInput_one_bit [of "[104, 126]"]
  by (simp add: modifiedInput_def)

text \<open>
  Claim C9. The quality label is a total function of the percentage: it is Excellent
  exactly when the percentage lies between 45 and 55, Good exactly when it lies between
  40 and 60 and not between 45 and 55, and Poor in every other case (which includes
  \<open>NaN\<close> and the infinities).
\<close>

theorem avalancheQuality_label:
  "(fst (avalancheQuality p) = Excellent \<longleftrightarrow> between 45 p 55)
   \<and> (fst (avalancheQuality p) = Good \<longleftrightarrow> between 40 p 60 \<and> \<not> between 45 p 55)
   \<and> (fst (avalancheQuality p) = Poor \<longleftrightarrow> \<not> between 40 p 60)"
  by (cases p) (auto simp: avalancheQuality_def)

theorem avalancheQuality_label_witness:
  "fst (avalancheQuality (Num 50)) = Excellent \<and> between 45 (Num 50) 55
   \<and> fst (avalancheQuality (Num 42)) = Good \<and> fst (avalancheQuality NaN) = Poor"
  using avalancheQuality_label [of "Num 50"] avalancheQuality_label [of "Num 42"]
    avalancheQuality_label [of NaN]
  by simp

section \<open>Sample runs\<close>


lemma trim_letter: "trim [65] = [65]"
  by (simp add: trim_def is_js_whitespace_def)

lemma trim_spaces: "trim [32, 32] = []"
  by (simp add: trim_def is_js_whitespace_def)

lemma trim_large: "trim [65535] = [65535]"
  by (simp add: trim_def is_js_whitespace_def)

lemma sample_encrypt: "textbook_encrypt 65 \<lparr>pub_e = 17, pub_n = 3233\<rparr> = Inr 2790"
  by code_simp


lemma number_string_0: "number_string 0 = ''0''"
  by code_simp

lemma number_string_1: "number_string 1 = ''1''"
  by code_simp

lemma toString_2790: "toString 2790 = [50, 55, 57, 48]"
  by code_simp



lemma sample_handleEncrypt:
  "handleEncrypt sample_collaborators [65] keyed_page =
    ([Call (StringToBigInt [65]), Call (Encrypt 65 \<lparr>pub_e = 17, pub_n = 3233\<rparr>),
      DisplayEncryptionResults [65] 65 2790 \<lparr>pub_e = 17, pub_n = 3233\<rparr>,
      EnableButton ''decrypt-btn''],
     encrypted_page)"
  by (simp add: handleEncrypt_def keyed_page_def fresh_page_def sample_keys_def trim_letter
      sample_collaborators_def sample_encrypt Let_def encrypted_page_def toString_2790)


section \<open>Input validation\<close>

text \<open>
  Claim C4. Each validation failure shows one error and returns: \<open>handleComputeHash\<close>
  with an empty input or with no algorithm selected, \<open>handleAvalanche\<close> with an empty
  base input, \<open>handleBirthdayCalculator\<close> with an algorithm that has no entry, and
  \<open>handleEncrypt\<close> and \<open>handleDecrypt\<close> with no keys or with an input that is empty
  after trimming. The run then consists of the error alone, so no computation is
  called, and the page state is the one before the call.
\<close>

theorem validation_failures:
  "handleComputeHash env [] checkboxes s = ([ShowError (Text ''Please enter text to hash'')], s)
   \<and> (input \<noteq> [] \<and> getSelectedAlgorithms checkboxes = [] \<longrightarrow>
        handleComputeHash env input checkboxes s
        = ([ShowError (Text ''Please select at least one hash algorithm'')], s))
   \<and> handleAvalanche env [] algorithm s
      = ([ShowError (Text ''Please enter base text for avalanche test'')], s)
   \<and> (getAlgorithmInfo env algorithm = None \<longrightarrow>
        handleBirthdayCalculator env algorithm s
        = ([ShowError (Text ''Invalid algorithm selected'')], s))
   \<and> (currentKeys s = None \<longrightarrow>
        handleEncrypt env field s = ([ShowError (Text ''Please generate keys first!'')], s)
        \<and> handleDecrypt env field s = ([ShowError (Text ''Please generate keys first!'')], s))
   \<and> (currentKeys s \<noteq> None \<and> trim field = [] \<longrightarrow>
        handleEncrypt env field s = ([ShowError (Text ''Please enter a message to encrypt'')], s)
        \<and> handleDecrypt env field s
          = ([ShowError (Text ''Please enter ciphertext to decrypt'')], s))"
  by (auto simp: handleComputeHash_def handleAvalanche_def handleBirthdayCalculator_def
      handleEncrypt_def handleDecrypt_def)

theorem validation_failures_witness:
  "[65 :: 16 word] \<noteq> [] \<and> getSelectedAlgorithms [(''MD5'', False)] = []
   \<and> handleComputeHash sample_collaborators [65] [(''MD5'', False)] fresh_page
      = ([ShowError (Text ''Please select at least one hash algorithm'')], fresh_page)
   \<and> getAlgorithmInfo sample_collaborators ''CRC'' = None
   \<and> handleBirthdayCalculator sample_collaborators ''CRC'' fresh_page
      = ([ShowError (Text ''Invalid algorithm selected'')], fresh_page)
   \<and> currentKeys fresh_page = None
   \<and> handleEncrypt sample_collaborators [32, 32] fresh_page
      = ([ShowError (Text ''Please generate keys first!'')], fresh_page)
   \<and> currentKeys keyed_page \<noteq> None \<and> trim [32, 32] = []
   \<and> handleDecrypt sample_collaborators [32, 32] keyed_page
      = ([ShowError (Text ''Please enter ciphertext to decrypt'')], keyed_page)"
  using validation_failures [where env = sample_collaborators and input = "[65]"
      and checkboxes = "[(''MD5'', False)]" and s = fresh_page and algorithm = "''CRC''"
      and field = "[32, 32]"]
    validation_failures [where env = sample_collaborators and s = keyed_page
      and field = "[32, 32]"]
  by (simp add: getSelectedAlgorithms_def sample_collaborators_def fresh_page_def
      keyed_page_def trim_spaces)

section \<open>The size check of encryption\<close>

text \<open>
  Claim C5. Every call of \<open>RSACore.encrypt\<close> made by \<open>handleEncrypt\<close> has a message
  integer strictly below the modulus of the public key. When the message integer is not
  below the modulus, the handler reports the maximum message length
  \<open>floor(bitLength(n) / 8) - 1\<close> and returns without encrypting, the page state
  (and so \<open>lastCiphertext\<close>) unchanged.
\<close>

theorem encrypt_only_below_modulus:
  "(Call (Encrypt m pk) \<in> set (fst (handleEncrypt env field s)) \<longrightarrow> m < pub_n pk)
   \<and> (currentKeys s = Some keys \<and> trim field \<noteq> []
        \<and> stringToBigInt env (trim field) = Inr messageNat
        \<and> int messageNat \<ge> pub_n (publicKey keys) \<longrightarrow>
      handleEncrypt env field s =
       ([Call (StringToBigInt (trim field)), Call (BitLength (pub_n (publicKey keys))),
         ShowError (Text (''Message too large! Maximum message length: ~''
           @ number_string (int (bitLength env (pub_n (publicKey keys)) div 8) - 1)
           @ '' bytes. Your message: ''
           @ number_string (int (length (trim field))) @ '' bytes.''))], s))"
proof -
  have "m < pub_n pk" if "Call (Encrypt m pk) \<in> set (fst (handleEncrypt env field s))"
    using that
    by (auto simp: handleEncrypt_def Let_def split: option.splits if_splits sum.splits)
  moreover have "handleEncrypt env field s =
       ([Call (StringToBigInt (trim field)), Call (BitLength (pub_n (publicKey keys))),
         ShowError (Text (''Message too large! Maximum message length: ~''
           @ number_string (int (bitLength env (pub_n (publicKey keys)) div 8) - 1)
           @ '' bytes. Your message: ''
           @ number_string (int (length (trim field))) @ '' bytes.''))], s)"
    if "currentKeys s = Some keys" "trim field \<noteq> []"
       "stringToBigInt env (trim field) = Inr messageNat"
       "int messageNat \<ge> pub_n (publicKey keys)"
    using that by (simp add: handleEncrypt_def Let_def)
  ultimately show ?thesis by blast
qed

theorem encrypt_only_below_modulus_witness:
  "currentKeys keyed_page = Some sample_keys \<and> trim [65535] \<noteq> []
   \<and> stringToBigInt sample_collaborators (trim [65535]) = Inr 65535
   \<and> int 65535 \<ge> pub_n (publicKey sample_keys)
   \<and> handleEncrypt sample_collaborators [65535] keyed_page =
       ([Call (StringToBigInt [65535]), Call (BitLength 3233),
         ShowError (Text
           ''Message too large! Maximum message length: ~0 bytes. Your message: 1 bytes.'')],
        keyed_page)
   \<and> Call (Encrypt 65 \<lparr>pub_e = 17, pub_n = 3233\<rparr>)
        \<in> set (fst (handleEncrypt sample_collaborators [65] keyed_page))
   \<and> (65 :: int) < pub_n \<lparr>pub_e = 17, pub_n = 3233\<rparr>"
proof -
  have large: "handleEncrypt sample_collaborators [65535] keyed_page =
       ([Call (StringToBigInt [65535]), Call (BitLength 3233),
         ShowError (Text
           ''Message too large! Maximum message length: ~0 bytes. Your message: 1 bytes.'')],
        keyed_page)"
    using encrypt_only_below_modulus [where env = sample_collaborators and field = "[65535]"
      and s = keyed_page and keys = sample_keys and messageNat = 65535 and m = 65
      and pk = "\<lparr>pub_e = 17, pub_n = 3233\<rparr>"]
    by (simp add: trim_large keyed_page_def fresh_page_def sample_keys_def
      sample_collaborators_def number_string_0 number_string_1)
  show ?thesis
    by (simp add: large trim_large sample_handleEncrypt)
      (simp add: keyed_page_def fresh_page_def sample_keys_def sample_collaborators_def)
qed

section \<open>What the handlers change\<close>

lemma localStorage_applyTheme:
  "localStorage (applyTheme t s) = (localStorage s)(''theme'' \<mapsto> t)"
  by (simp add: applyTheme_def)

lemma snd_handleComputeHash:
  "snd (handleComputeHash env input checkboxes s) = s
   \<or> (\<exists>results. snd (handleComputeHash env input checkboxes s)
         = s\<lparr> currentHashes := results, lastInput := input \<rparr>)"
  by (auto simp: handleComputeHash_def Let_def split: prod.splits sum.splits)

lemma snd_handleAvalanche: "snd (handleAvalanche env baseInput algorithm s) = s"
  by (simp add: handleAvalanche_def Let_def split: sum.splits)

lemma snd_handleBirthdayCalculator: "snd (handleBirthdayCalculator env algorithm s) = s"
  by (simp add: handleBirthdayCalculator_def Let_def split: option.splits)

lemma snd_handleGenerateKeys:
  "snd (handleGenerateKeys env keySize s) = s
   \<or> (\<exists>keys. snd (handleGenerateKeys env keySize s) = s\<lparr> currentKeys := Some keys \<rparr>)"
  by (auto simp: handleGenerateKeys_def Let_def split: prod.splits sum.splits)

lemma snd_handleEncrypt:
  "snd (handleEncrypt env field s) = s
   \<or> (\<exists>c. snd (handleEncrypt env field s)
          = s\<lparr> lastCiphertext := Some c, ciphertextField := toString c \<rparr>)"
  by (auto simp: handleEncrypt_def Let_def split: option.splits sum.splits)

lemma snd_handleDecrypt: "snd (handleDecrypt env field s) = s"
  by (simp add: handleDecrypt_def Let_def split: option.splits sum.splits)

text \<open>
  Claim C2, as stated, fails: toggling the theme on a fresh page stores the new theme
  in \<open>localStorage\<close>.
\<close>

theorem localStorage_counterexample:
  "localStorage (toggleTheme fresh_page) \<noteq> localStorage fresh_page"
proof
  assume "localStorage (toggleTheme fresh_page) = localStorage fresh_page"
  then have "localStorage (toggleTheme fresh_page) ''theme'' = localStorage fresh_page ''theme''"
    by simp
  then show False
    by (simp add: toggleTheme_def Let_def localStorage_applyTheme fresh_page_def)
qed

text \<open>
  Claim C2, amended. The handlers of the hash visualizer and of the RSA tool leave
  \<open>localStorage\<close> as it was. Toggling and initializing the theme store the applied
  theme under the key \<open>theme\<close> and leave every other key as it was.
\<close>

theorem localStorage_frame:
  "localStorage (snd (handleComputeHash env input checkboxes s)) = localStorage s
   \<and> localStorage (snd (handleAvalanche env input algorithm s)) = localStorage s
   \<and> localStorage (snd (handleBirthdayCalculator env algorithm s)) = localStorage s
   \<and> localStorage (snd (handleGenerateKeys env keySize s)) = localStorage s
   \<and> localStorage (snd (handleEncrypt env input s)) = localStorage s
   \<and> localStorage (snd (handleDecrypt env input s)) = localStorage s
   \<and> localStorage (toggleTheme s) = (localStorage s)(''theme'' := dataTheme (toggleTheme s))
   \<and> localStorage (initTheme prefersDark s)
      = (localStorage s)(''theme'' := dataTheme (initTheme prefersDark s))"
proof -
  have "localStorage (snd (handleComputeHash env input checkboxes s)) = localStorage s"
    using snd_handleComputeHash [of env input checkboxes s] by auto
  moreover have "localStorage (snd (handleGenerateKeys env keySize s)) = localStorage s"
    using snd_handleGenerateKeys [of env keySize s] by auto
  moreover have "localStorage (snd (handleEncrypt env input s)) = localStorage s"
    using snd_handleEncrypt [of env input s] by auto
  moreover have "localStorage (toggleTheme s)
      = (localStorage s)(''theme'' := dataTheme (toggleTheme s))"
    by (simp add: toggleTheme_def Let_def localStorage_applyTheme dataTheme_applyTheme)
  moreover have "localStorage (initTheme prefersDark s)
      = (localStorage s)(''theme'' := dataTheme (initTheme prefersDark s))"
    by (simp add: initTheme_def localStorage_applyTheme dataTheme_applyTheme)
  ultimately show ?thesis
    by (simp add: snd_handleAvalanche snd_handleBirthdayCalculator snd_handleDecrypt)
qed

theorem localStorage_frame_witness:
  "localStorage (snd (handleEncrypt sample_collaborators [65] keyed_page))
     = localStorage keyed_page
   \<and> localStorage (toggleTheme keyed_page) ''theme'' = Some ''dark''
   \<and> localStorage (toggleTheme keyed_page) ''other'' = localStorage keyed_page ''other''"
  using localStorage_frame [where env = sample_collaborators and input = "[65]"
      and s = keyed_page]
  by (simp add: dataTheme_toggleTheme currentTheme_def keyed_page_def fresh_page_def)

section \<open>What the results depend on\<close>




section \<open>The order of hash computations\<close>















end
